theory Spec2Isabelle
  imports Main "HOL-Library.Word"
begin

section \<open>Data model\<close>

text \<open>
  The credential helper exchanges an X.509 identity for temporary credentials.
  Go pointers (\<^verbatim>\<open>*string\<close>, \<^verbatim>\<open>*int64\<close>, \<^verbatim>\<open>*Credentials\<close>) are options, \<^verbatim>\<open>nil\<close> being
  \<open>None\<close>; Go slices are lists, the nil slice being the empty list; \<^verbatim>\<open>int64\<close> is a
  64-bit word read as a signed number. A Go \<^verbatim>\<open>error\<close> result is an \<open>error option\<close>,
  \<^verbatim>\<open>nil\<close> being \<open>None\<close>, returned beside the value as the source does.
\<close>

type_synonym int64 = "64 word"

text \<open>\<^verbatim>\<open>protocol.ResponseMetadata\<close>: the HTTP status and the request id of a response.\<close>

record ResponseMetadata =
  md_StatusCode :: int
  md_RequestID :: string

text \<open>The entries that \<^verbatim>\<open>request.ErrInvalidParams\<close> collects.\<close>

datatype ErrInvalidParam =
    ErrParamMinValue string int
  | ErrParamRequired string
  | ErrParamMinLen string nat

text \<open>
  The error values of the program: \<^verbatim>\<open>errors.New\<close>, the parameter validation failure, the
  three modelled exceptions of the service (each holding \<^verbatim>\<open>RespMetadata\<close> and \<^verbatim>\<open>Message_\<close>),
  and the generic failure for an unmodelled error code (code, message, status, request id).
\<close>

datatype error =
    ErrorString string
  | ErrInvalidParams string "ErrInvalidParam list"
  | AccessDeniedException ResponseMetadata "string option"
  | ResourceNotFoundException ResponseMetadata "string option"
  | ValidationException ResponseMetadata "string option"
  | RemoteError string string int string

record CredentialsOpts =
  PrivateKeyId :: string
  CertificateId :: string
  CertificateBundleId :: string
  RoleArn :: string
  ProfileArnStr :: string
  TrustAnchorArnStr :: string
  SessionDuration :: int
  Region :: string
  Endpoint :: string
  NoVerifySSL :: bool
  WithProxy :: bool
  Debug :: bool
  Version :: string

text \<open>
  \<^verbatim>\<open>CredentialProcessOutput\<close>, with the fields \<^verbatim>\<open>GenerateCredentials\<close> fills in.
\<close>

record CredentialProcessOutput =
  out_Version :: int
  out_AccessKeyId :: string
  out_SecretAccessKey :: string
  out_SessionToken :: string
  out_Expiration :: string

text \<open>The zero value \<^verbatim>\<open>CredentialProcessOutput{}\<close>.\<close>

definition CredentialProcessOutput_zero :: CredentialProcessOutput where
  "CredentialProcessOutput_zero =
     \<lparr>out_Version = 0, out_AccessKeyId = [], out_SecretAccessKey = [],
      out_SessionToken = [], out_Expiration = []\<rparr>"

record CreateSessionInput =
  csi_Cert :: "string option"
  csi_DurationSeconds :: "int64 option"
  csi_InstanceProperties :: "(string \<times> string option) list option"
  csi_ProfileArn :: "string option"
  csi_RoleArn :: "string option"
  csi_SessionName :: "string option"
  csi_TrustAnchorArn :: "string option"

text \<open>The zero value \<^verbatim>\<open>CreateSessionInput{}\<close>.\<close>

definition CreateSessionInput_zero :: CreateSessionInput where
  "CreateSessionInput_zero =
     \<lparr>csi_Cert = None, csi_DurationSeconds = None, csi_InstanceProperties = None,
      csi_ProfileArn = None, csi_RoleArn = None, csi_SessionName = None,
      csi_TrustAnchorArn = None\<rparr>"

record Credentials =
  AccessKeyId :: "string option"
  Expiration :: "string option"
  SecretAccessKey :: "string option"
  SessionToken :: "string option"

record AssumedRoleUser =
  Arn :: "string option"
  AssumedRoleId :: "string option"

record CredentialResponse =
  cr_AssumedRoleUser :: "AssumedRoleUser option"
  cr_Credentials :: "Credentials option"
  cr_PackedPolicySize :: "int64 option"
  cr_RoleArn :: "string option"
  cr_SourceIdentity :: "string option"

record CreateSessionOutput =
  CredentialSet :: "CredentialResponse option list"
  EnrollmentArn :: "string option"
  SubjectArn :: "string option"

section \<open>Collaborators\<close>

text \<open>
  \<^verbatim>\<open>arn.ARN\<close> of the SDK, the result of \<^verbatim>\<open>arn.Parse\<close>.
\<close>

record ARN =
  arn_Partition :: string
  arn_Service :: string
  arn_Region :: string
  arn_AccountID :: string
  arn_Resource :: string

text \<open>
  Identity material is opaque here: a private key handle, the certificate record that
  \<^verbatim>\<open>ReadCertificateData\<close> returns (of which only the base64 text is read), and a parsed
  certificate.
\<close>

type_synonym bytes = "8 word list"

datatype PrivateKey = PrivateKey string

datatype x509_Certificate = Certificate bytes

record CertificateData =
  cd_CertificateData :: string

text \<open>
  Request handlers are named; what a handler does is the SDK's or the signer's business, so
  a handler is its name and a description of the function installed.
\<close>

datatype HandlerFn =
    SDKHandler
  | AddToUserAgentHandler string "string list"
  | SignFunction PrivateKey x509_Certificate "x509_Certificate list"

record NamedHandler =
  h_Name :: string
  h_Fn :: HandlerFn

text \<open>A session, as far as this program uses it: the default Build and Sign handlers.\<close>

record Session =
  ses_Build :: "NamedHandler list"
  ses_Sign :: "NamedHandler list"

datatype LogLevelType = LogOff | LogDebug

datatype ProxyFunc = ProxyFromEnvironment

record http_Transport =
  tls_MinVersion :: nat
  tls_InsecureSkipVerify :: bool
  tr_Proxy :: "ProxyFunc option"

record http_Client =
  Transport :: http_Transport

definition VersionTLS12 :: nat where
  "VersionTLS12 = 0x0303"

text \<open>\<^verbatim>\<open>aws.Config\<close>, the four settings the program makes.\<close>

record aws_Config =
  cfg_Region :: "string option"
  cfg_HTTPClient :: "http_Client option"
  cfg_LogLevel :: "LogLevelType option"
  cfg_Endpoint :: "string option"

definition NewConfig :: aws_Config where
  "NewConfig = \<lparr>cfg_Region = None, cfg_HTTPClient = None, cfg_LogLevel = None,
                cfg_Endpoint = None\<rparr>"

definition WithRegion :: "aws_Config \<Rightarrow> string \<Rightarrow> aws_Config" where
  "WithRegion c region = c\<lparr>cfg_Region := Some region\<rparr>"

definition WithHTTPClient :: "aws_Config \<Rightarrow> http_Client \<Rightarrow> aws_Config" where
  "WithHTTPClient c client = c\<lparr>cfg_HTTPClient := Some client\<rparr>"

definition WithLogLevel :: "aws_Config \<Rightarrow> LogLevelType \<Rightarrow> aws_Config" where
  "WithLogLevel c level = c\<lparr>cfg_LogLevel := Some level\<rparr>"

definition WithEndpoint :: "aws_Config \<Rightarrow> string \<Rightarrow> aws_Config" where
  "WithEndpoint c endpoint = c\<lparr>cfg_Endpoint := Some endpoint\<rparr>"

text \<open>
  The service client: the configuration it was created with and its Build and Sign
  handler lists. Endpoint resolution and the other handler lists stay with the SDK.
\<close>

record RolesAnywhere =
  ra_Config :: aws_Config
  ra_Build :: "NamedHandler list"
  ra_Sign :: "NamedHandler list"

record Operation =
  op_Name :: string
  op_HTTPMethod :: string
  op_HTTPPath :: string

record Request =
  req_Client :: RolesAnywhere
  req_Operation :: Operation
  req_Params :: CreateSessionInput
  req_Data :: CreateSessionOutput

text \<open>
  What the program asks of the world. Every function returns the Go pair of a value and an
  error; the value is meaningful when the error is nil. \<open>Send\<close> is \<^verbatim>\<open>req.Send()\<close>: it
  returns the response record it filled in and the error.
\<close>

record Env =
  arn_Parse :: "string \<Rightarrow> ARN \<times> error option"
  ReadPrivateKeyData :: "string \<Rightarrow> PrivateKey \<times> error option"
  ReadCertificateData :: "string \<Rightarrow> CertificateData \<times> error option"
  base64_DecodeString :: "string \<Rightarrow> bytes \<times> error option"
  x509_ParseCertificate :: "bytes \<Rightarrow> x509_Certificate \<times> error option"
  ReadCertificateBundleData :: "string \<Rightarrow> x509_Certificate option list \<times> error option"
  session_NewSession :: "Session \<times> error option"
  runtime_Version :: string
  runtime_GOOS :: string
  runtime_GOARCH :: string
  Send :: "Request \<Rightarrow> CreateSessionOutput \<times> error option"

text \<open>
  The calls that load identity material, create the session or go to the network are
  recorded, in order, so that "no call was made" is a statement about the record.
\<close>

datatype call =
    Call_ReadPrivateKeyData string
  | Call_ReadCertificateData string
  | Call_ReadCertificateBundleData string
  | Call_NewSession
  | Call_Send Request

section \<open>The service client\<close>

text \<open>\<^verbatim>\<open>exceptionFromCode\<close> and the three constructors it maps to.\<close>

definition newErrorAccessDeniedException :: "ResponseMetadata \<Rightarrow> error" where
  "newErrorAccessDeniedException v = AccessDeniedException v None"

definition newErrorResourceNotFoundException :: "ResponseMetadata \<Rightarrow> error" where
  "newErrorResourceNotFoundException v = ResourceNotFoundException v None"

definition newErrorValidationException :: "ResponseMetadata \<Rightarrow> error" where
  "newErrorValidationException v = ValidationException v None"

definition exceptionFromCode :: "(string \<times> (ResponseMetadata \<Rightarrow> error)) list" where
  "exceptionFromCode =
     [(''AccessDeniedException'', newErrorAccessDeniedException),
      (''ResourceNotFoundException'', newErrorResourceNotFoundException),
      (''ValidationException'', newErrorValidationException)]"

text \<open>
  The methods \<^verbatim>\<open>Code\<close>, \<^verbatim>\<open>Message\<close>, \<^verbatim>\<open>StatusCode\<close> and \<^verbatim>\<open>RequestID\<close> of the three exception
  types, one equation for each type. The generic error answers with the code, message,
  status and request id it holds; the other errors have no such methods.
\<close>

fun Code :: "error \<Rightarrow> string option" where
  "Code (AccessDeniedException m msg) = Some ''AccessDeniedException''"
| "Code (ResourceNotFoundException m msg) = Some ''ResourceNotFoundException''"
| "Code (ValidationException m msg) = Some ''ValidationException''"
| "Code (RemoteError code msg status rid) = Some code"
| "Code _ = None"

fun Message :: "error \<Rightarrow> string option" where
  "Message (AccessDeniedException m msg) = Some (case msg of Some s \<Rightarrow> s | None \<Rightarrow> [])"
| "Message (ResourceNotFoundException m msg) = Some (case msg of Some s \<Rightarrow> s | None \<Rightarrow> [])"
| "Message (ValidationException m msg) = Some (case msg of Some s \<Rightarrow> s | None \<Rightarrow> [])"
| "Message (RemoteError code msg status rid) = Some msg"
| "Message _ = None"

fun StatusCode :: "error \<Rightarrow> int option" where
  "StatusCode (AccessDeniedException m msg) = Some (md_StatusCode m)"
| "StatusCode (ResourceNotFoundException m msg) = Some (md_StatusCode m)"
| "StatusCode (ValidationException m msg) = Some (md_StatusCode m)"
| "StatusCode (RemoteError code msg status rid) = Some status"
| "StatusCode _ = None"

fun RequestID :: "error \<Rightarrow> string option" where
  "RequestID (AccessDeniedException m msg) = Some (md_RequestID m)"
| "RequestID (ResourceNotFoundException m msg) = Some (md_RequestID m)"
| "RequestID (ValidationException m msg) = Some (md_RequestID m)"
| "RequestID (RemoteError code msg status rid) = Some rid"
| "RequestID _ = None"

text \<open>
  Modelled from the spec: decoding the message of the error body into the typed error. The
  decoder belongs to the dispatcher below and is not part of the sources.
\<close>

fun withMessage :: "string \<Rightarrow> error \<Rightarrow> error" where
  "withMessage s (AccessDeniedException m msg) = AccessDeniedException m (Some s)"
| "withMessage s (ResourceNotFoundException m msg) = ResourceNotFoundException m (Some s)"
| "withMessage s (ValidationException m msg) = ValidationException m (Some s)"
| "withMessage s e = e"

text \<open>
  Modelled from the spec: the dispatcher that \<^verbatim>\<open>newClient\<close> installs as the UnmarshalError
  handler (\<^verbatim>\<open>restjson.NewUnmarshalTypedError(exceptionFromCode)\<close>) is not part of the
  sources. Following section 4.4 of the specification it looks the error code up in the
  mapping, builds the typed error from the response metadata and fills in the message of
  the body; an unrecognized code gives the generic error, which keeps the status and the
  request id.
\<close>

definition UnmarshalError :: "string \<Rightarrow> string \<Rightarrow> ResponseMetadata \<Rightarrow> error" where
  "UnmarshalError code msg respMeta =
     (case map_of exceptionFromCode code of
        Some fn \<Rightarrow> withMessage msg (fn respMeta)
      | None \<Rightarrow> RemoteError code msg (md_StatusCode respMeta) (md_RequestID respMeta))"

text \<open>\<^verbatim>\<open>Handlers.Build\<close> and \<^verbatim>\<open>Handlers.Sign\<close> are lists edited by these three operations.\<close>

definition PushBackNamed :: "NamedHandler list \<Rightarrow> NamedHandler \<Rightarrow> NamedHandler list" where
  "PushBackNamed l n = l @ [n]"

definition RemoveByName :: "NamedHandler list \<Rightarrow> string \<Rightarrow> NamedHandler list" where
  "RemoveByName l name = filter (\<lambda>h. h_Name h \<noteq> name) l"

definition Clear :: "NamedHandler list \<Rightarrow> NamedHandler list" where
  "Clear l = []"

text \<open>
  \<^verbatim>\<open>NewClient\<close> with \<^verbatim>\<open>newClient\<close>: the new client starts from the session's handlers and gets
  the default signer and the REST-JSON builder pushed at the back. The signing name and
  the client metadata are not represented. The hook \<^verbatim>\<open>initClient\<close> is nil in this program.
\<close>

definition NewClient :: "Session \<Rightarrow> aws_Config \<Rightarrow> RolesAnywhere" where
  "NewClient p cfg =
     \<lparr>ra_Config = cfg,
      ra_Build = PushBackNamed (ses_Build p)
                   \<lparr>h_Name = ''awssdk.restjson.Build'', h_Fn = SDKHandler\<rparr>,
      ra_Sign = PushBackNamed (ses_Sign p)
                  \<lparr>h_Name = ''v4.SignRequestHandler'', h_Fn = SDKHandler\<rparr>\<rparr>"

definition opCreateSession :: string where
  "opCreateSession = ''CreateSession''"

definition CreateSessionOutput_zero :: CreateSessionOutput where
  "CreateSessionOutput_zero = \<lparr>CredentialSet = [], EnrollmentArn = None, SubjectArn = None\<rparr>"

text \<open>
  \<^verbatim>\<open>CreateSessionRequest\<close>: a POST to \<^verbatim>\<open>/sessions\<close>; a nil input is replaced by the zero
  input. The hook \<^verbatim>\<open>initRequest\<close> is nil in this program.
\<close>

definition CreateSessionRequest ::
    "RolesAnywhere \<Rightarrow> CreateSessionInput option \<Rightarrow> Request \<times> CreateSessionOutput" where
  "CreateSessionRequest c input =
    (let op = \<lparr>op_Name = opCreateSession, op_HTTPMethod = ''POST'',
               op_HTTPPath = ''/sessions''\<rparr>;
         input = (case input of None \<Rightarrow> CreateSessionInput_zero | Some i \<Rightarrow> i);
         output = CreateSessionOutput_zero;
         req = \<lparr>req_Client = c, req_Operation = op, req_Params = input,
                req_Data = output\<rparr>
     in (req, output))"

text \<open>
  \<^verbatim>\<open>CreateSession\<close>: build the request and send it. The send is recorded; the result is
  the response record after the send, and the error of the send.
\<close>

definition CreateSession ::
    "Env \<Rightarrow> RolesAnywhere \<Rightarrow> CreateSessionInput option \<Rightarrow> call list
      \<Rightarrow> (CreateSessionOutput \<times> error option) \<times> call list" where
  "CreateSession env c input calls =
    (let (req, out) = CreateSessionRequest c input
     in (Send env req, calls @ [Call_Send req]))"

section \<open>Parameter validation\<close>

text \<open>
  \<^verbatim>\<open>CreateSessionInput.Validate\<close>: the four checks run in the order of the source, each
  adding to \<^verbatim>\<open>invalidParams\<close>; the result is that collection when it is not empty.
\<close>

definition Validate :: "CreateSessionInput \<Rightarrow> error option" where
  "Validate s =
    (let invalidParams = [];
         invalidParams =
           (case csi_DurationSeconds s of
              Some d \<Rightarrow>
                if sint d < 900
                then invalidParams @ [ErrParamMinValue ''DurationSeconds'' 900]
                else invalidParams
            | None \<Rightarrow> invalidParams);
         invalidParams =
           (if csi_ProfileArn s = None
            then invalidParams @ [ErrParamRequired ''ProfileArn'']
            else invalidParams);
         invalidParams =
           (if csi_RoleArn s = None
            then invalidParams @ [ErrParamRequired ''RoleArn'']
            else invalidParams);
         invalidParams =
           (case csi_SessionName s of
              Some n \<Rightarrow>
                if length n < 2
                then invalidParams @ [ErrParamMinLen ''SessionName'' 2]
                else invalidParams
            | None \<Rightarrow> invalidParams)
     in if length invalidParams > 0
        then Some (ErrInvalidParams ''CreateSessionInput'' invalidParams)
        else None)"

section \<open>Generating credentials\<close>

text \<open>
  The loop over \<^verbatim>\<open>certificateChainPointers\<close> appends the certificate each pointer refers to;
  dereferencing a nil pointer panics, which is the result \<open>None\<close>.
\<close>

fun appendCertificates ::
    "x509_Certificate list \<Rightarrow> x509_Certificate option list \<Rightarrow> x509_Certificate list option" where
  "appendCertificates certificateChain [] = Some certificateChain"
| "appendCertificates certificateChain (None # ps) = None"
| "appendCertificates certificateChain (Some certificate # ps) =
     appendCertificates (certificateChain @ [certificate]) ps"

text \<open>
  A run of \<^verbatim>\<open>GenerateCredentials\<close> either returns its pair of results or panics (on
  \<^verbatim>\<open>session.Must\<close> or on a nil dereference).
\<close>

datatype outcome =
    Returned CredentialProcessOutput "error option"
  | Panic

text \<open>
  \<^verbatim>\<open>GenerateCredentials\<close>, called with a non-nil \<^verbatim>\<open>opts\<close>. The result is the outcome, the
  options record after the run
  (the function writes \<^verbatim>\<open>opts.Region\<close> through the pointer) and the calls made. The variable
  \<open>err\<close> is the one of the source: each early return hands back its current value. The
  handler lists of the client are edited in place, which is \<open>ra_Build_update\<close> and
  \<open>ra_Sign_update\<close> of the record.
\<close>

definition GenerateCredentials ::
    "Env \<Rightarrow> CredentialsOpts \<Rightarrow> outcome \<times> CredentialsOpts \<times> call list" where
  "GenerateCredentials env opts =
    (let (trustAnchorArn, err) = arn_Parse env (TrustAnchorArnStr opts) in
     if err \<noteq> None then (Returned CredentialProcessOutput_zero err, opts, []) else
     let (profileArn, err) = arn_Parse env (ProfileArnStr opts) in
     if err \<noteq> None then (Returned CredentialProcessOutput_zero err, opts, []) else
     if arn_Region trustAnchorArn \<noteq> arn_Region profileArn
     then (Returned CredentialProcessOutput_zero err, opts, []) else
     let opts = (if Region opts = [] then opts\<lparr>Region := arn_Region trustAnchorArn\<rparr> else opts);
         calls = [Call_ReadPrivateKeyData (PrivateKeyId opts)];
         (privateKey, err) = ReadPrivateKeyData env (PrivateKeyId opts) in
     if err \<noteq> None then (Returned CredentialProcessOutput_zero err, opts, calls) else
     let calls = calls @ [Call_ReadCertificateData (CertificateId opts)];
         (certificateData, err) = ReadCertificateData env (CertificateId opts) in
     if err \<noteq> None then (Returned CredentialProcessOutput_zero err, opts, calls) else
     let (certificateDerData, err) =
           base64_DecodeString env (cd_CertificateData certificateData) in
     if err \<noteq> None then (Returned CredentialProcessOutput_zero err, opts, calls) else
     let (certificate, err) = x509_ParseCertificate env certificateDerData in
     if err \<noteq> None then (Returned CredentialProcessOutput_zero err, opts, calls) else
     let (bundle, calls) =
           (if CertificateBundleId opts \<noteq> []
            then
              (let calls = calls @ [Call_ReadCertificateBundleData (CertificateBundleId opts)];
                   (certificateChainPointers, err) =
                      ReadCertificateBundleData env (CertificateBundleId opts)
               in if err \<noteq> None
                  then (Inl (Returned CredentialProcessOutput_zero err), calls)
                  else (case appendCertificates [] certificateChainPointers of
                          None \<Rightarrow> (Inl Panic, calls)
                        | Some certificateChain \<Rightarrow> (Inr certificateChain, calls)))
            else (Inr [], calls))
     in
     case bundle of
       Inl stop \<Rightarrow> (stop, opts, calls)
     | Inr certificateChain \<Rightarrow>
     let calls = calls @ [Call_NewSession];
         (mySession, err) = session_NewSession env in
     if err \<noteq> None then (Panic, opts, calls) else
     let logLevel = (if Debug opts then LogDebug else LogOff);
         tr = (if WithProxy opts
               then \<lparr>tls_MinVersion = VersionTLS12,
                     tls_InsecureSkipVerify = NoVerifySSL opts,
                     tr_Proxy = Some ProxyFromEnvironment\<rparr>
               else \<lparr>tls_MinVersion = VersionTLS12,
                     tls_InsecureSkipVerify = NoVerifySSL opts,
                     tr_Proxy = None\<rparr>);
         client = \<lparr>Transport = tr\<rparr>;
         config = WithLogLevel (WithHTTPClient (WithRegion NewConfig (Region opts)) client)
                    logLevel;
         config = (if Endpoint opts \<noteq> [] then WithEndpoint config (Endpoint opts) else config);
         rolesAnywhereClient = NewClient mySession config;
         rolesAnywhereClient =
           ra_Build_update
             (\<lambda>Build. RemoveByName Build ''core.SDKVersionUserAgentHandler'')
             rolesAnywhereClient;
         rolesAnywhereClient =
           ra_Build_update
             (\<lambda>Build. PushBackNamed Build
                \<lparr>h_Name = ''v4x509.CredHelperUserAgentHandler'',
                 h_Fn = AddToUserAgentHandler ''CredHelper''
                          [Version opts, runtime_Version env, runtime_GOOS env,
                           runtime_GOARCH env]\<rparr>)
             rolesAnywhereClient;
         rolesAnywhereClient = ra_Sign_update Clear rolesAnywhereClient;
         rolesAnywhereClient =
           ra_Sign_update
             (\<lambda>Sign. PushBackNamed Sign
                \<lparr>h_Name = ''v4x509.SignRequestHandler'',
                 h_Fn = SignFunction privateKey certificate certificateChain\<rparr>)
             rolesAnywhereClient;
         durationSeconds = (3600 :: int64);
         createSessionRequest =
           \<lparr>csi_Cert = Some (cd_CertificateData certificateData),
            csi_DurationSeconds = Some durationSeconds,
            csi_InstanceProperties = None,
            csi_ProfileArn = Some (ProfileArnStr opts),
            csi_RoleArn = Some (RoleArn opts),
            csi_SessionName = None,
            csi_TrustAnchorArn = Some (TrustAnchorArnStr opts)\<rparr>;
         ((output, err), calls) =
            CreateSession env rolesAnywhereClient (Some createSessionRequest) calls in
     if err \<noteq> None then (Returned CredentialProcessOutput_zero err, opts, calls) else
     if length (CredentialSet output) = 0
     then (let msg = ''unable to obtain temporary security credentials from CreateSession''
           in (Returned CredentialProcessOutput_zero (Some (ErrorString msg)), opts, calls))
     else
     case CredentialSet output ! 0 of
       None \<Rightarrow> (Panic, opts, calls)
     | Some first \<Rightarrow>
     case cr_Credentials first of
       None \<Rightarrow> (Panic, opts, calls)
     | Some credentials \<Rightarrow>
     case AccessKeyId credentials of
       None \<Rightarrow> (Panic, opts, calls)
     | Some accessKeyId \<Rightarrow>
     case SecretAccessKey credentials of
       None \<Rightarrow> (Panic, opts, calls)
     | Some secretAccessKey \<Rightarrow>
     case SessionToken credentials of
       None \<Rightarrow> (Panic, opts, calls)
     | Some sessionToken \<Rightarrow>
     case Expiration credentials of
       None \<Rightarrow> (Panic, opts, calls)
     | Some expiration \<Rightarrow>
       (let credentialProcessOutput =
              \<lparr>out_Version = 1,
               out_AccessKeyId = accessKeyId,
               out_SecretAccessKey = secretAccessKey,
               out_SessionToken = sessionToken,
               out_Expiration = expiration\<rparr>
        in (Returned credentialProcessOutput None, opts, calls)))"

text \<open>
  The last lines of \<^verbatim>\<open>GenerateCredentials\<close>, from the error check after \<^verbatim>\<open>CreateSession\<close> to the
  final return, as a function of what \<^verbatim>\<open>CreateSession\<close> returned. The lemmas on runs that
  reach the service are stated with it; lemma \<open>GenerateCredentials_exchange\<close> shows
  that this is what \<open>GenerateCredentials\<close> computes there.
\<close>

definition response_outcome :: "CreateSessionOutput \<times> error option \<Rightarrow> outcome" where
  "response_outcome sent =
    (case sent of (output, err) \<Rightarrow>
     if err \<noteq> None then Returned CredentialProcessOutput_zero err else
     if length (CredentialSet output) = 0
     then Returned CredentialProcessOutput_zero
            (Some (ErrorString
               ''unable to obtain temporary security credentials from CreateSession''))
     else
     case CredentialSet output ! 0 of
       None \<Rightarrow> Panic
     | Some first \<Rightarrow>
     case cr_Credentials first of
       None \<Rightarrow> Panic
     | Some credentials \<Rightarrow>
     case AccessKeyId credentials of
       None \<Rightarrow> Panic
     | Some accessKeyId \<Rightarrow>
     case SecretAccessKey credentials of
       None \<Rightarrow> Panic
     | Some secretAccessKey \<Rightarrow>
     case SessionToken credentials of
       None \<Rightarrow> Panic
     | Some sessionToken \<Rightarrow>
     case Expiration credentials of
       None \<Rightarrow> Panic
     | Some expiration \<Rightarrow>
         Returned \<lparr>out_Version = 1,
                   out_AccessKeyId = accessKeyId,
                   out_SecretAccessKey = secretAccessKey,
                   out_SessionToken = sessionToken,
                   out_Expiration = expiration\<rparr> None)"

section \<open>A concrete environment\<close>

text \<open>
  \<^verbatim>\<open>arn.Parse\<close> belongs to the SDK; to run the program on concrete ARN strings it is written
  out here as the library documents it: the string starts with \<^verbatim>\<open>arn:\<close> and splits at its
  first five colons into six sections, of which the last five fill the record.
\<close>

fun SplitN :: "string \<Rightarrow> char \<Rightarrow> nat \<Rightarrow> string list" where
  "SplitN s sep 0 = []"
| "SplitN s sep (Suc 0) = [s]"
| "SplitN [] sep (Suc (Suc n)) = [[]]"
| "SplitN (c # cs) sep (Suc (Suc n)) =
     (if c = sep then [] # SplitN cs sep (Suc n)
      else (case SplitN cs sep (Suc (Suc n)) of
              [] \<Rightarrow> [[c]]
            | x # xs \<Rightarrow> (c # x) # xs))"

definition HasPrefix :: "string \<Rightarrow> string \<Rightarrow> bool" where
  "HasPrefix s p = (take (length p) s = p)"

definition ARN_zero :: ARN where
  "ARN_zero = \<lparr>arn_Partition = [], arn_Service = [], arn_Region = [], arn_AccountID = [],
               arn_Resource = []\<rparr>"

definition Parse :: "string \<Rightarrow> ARN \<times> error option" where
  "Parse a =
    (if \<not> HasPrefix a ''arn:'' then (ARN_zero, Some (ErrorString ''arn: invalid prefix''))
     else
       (let sections = SplitN a (CHR '':'') (Suc (Suc (Suc (Suc (Suc (Suc 0))))))
        in if length sections \<noteq> 6
           then (ARN_zero, Some (ErrorString ''arn: not enough sections''))
           else (\<lparr>arn_Partition = sections ! 1, arn_Service = sections ! 2,
                  arn_Region = sections ! 3, arn_AccountID = sections ! 4,
                  arn_Resource = sections ! 5\<rparr>, None)))"

text \<open>
  An environment in which every identity collaborator succeeds with fixed material and
  the service answers every request with the given response.
\<close>

definition env_answering :: "CreateSessionOutput \<times> error option \<Rightarrow> Env" where
  "env_answering response =
     \<lparr>arn_Parse = Parse,
      ReadPrivateKeyData = (\<lambda>i. (PrivateKey i, None)),
      ReadCertificateData = (\<lambda>i. (\<lparr>cd_CertificateData = ''MIIB''\<rparr>, None)),
      base64_DecodeString = (\<lambda>s. ([48, 128, 1], None)),
      x509_ParseCertificate = (\<lambda>b. (Certificate b, None)),
      ReadCertificateBundleData = (\<lambda>i. ([], None)),
      session_NewSession = (\<lparr>ses_Build = [], ses_Sign = []\<rparr>, None),
      runtime_Version = ''go1.19'',
      runtime_GOOS = ''linux'',
      runtime_GOARCH = ''amd64'',
      Send = (\<lambda>req. response)\<rparr>"

definition example_opts :: "string \<Rightarrow> string \<Rightarrow> string \<Rightarrow> CredentialsOpts" where
  "example_opts trustAnchor profile region =
     \<lparr>PrivateKeyId = ''key.pem'', CertificateId = ''cert.pem'', CertificateBundleId = [],
      RoleArn = ''arn:aws:iam::1:role/r'', ProfileArnStr = profile,
      TrustAnchorArnStr = trustAnchor, SessionDuration = 900, Region = region,
      Endpoint = [], NoVerifySSL = False, WithProxy = False, Debug = False,
      Version = ''1.0''\<rparr>"

definition example_trust_anchor :: string where
  "example_trust_anchor = ''arn:aws:rolesanywhere:us-east-1:123456789012:trust-anchor/ta''"

definition example_profile :: string where
  "example_profile = ''arn:aws:rolesanywhere:us-east-1:123456789012:profile/p''"

definition example_profile_west :: string where
  "example_profile_west = ''arn:aws:rolesanywhere:us-west-2:123456789012:profile/p''"

definition example_credentials :: Credentials where
  "example_credentials =
     \<lparr>AccessKeyId = Some ''AKIDEXAMPLE'', Expiration = Some ''2024-01-01T00:00:00Z'',
      SecretAccessKey = Some ''secret'', SessionToken = Some ''tok''\<rparr>"

definition example_response :: "Credentials option \<Rightarrow> CredentialResponse" where
  "example_response c =
     \<lparr>cr_AssumedRoleUser = None, cr_Credentials = c, cr_PackedPolicySize = None,
      cr_RoleArn = Some ''arn:aws:iam::1:role/r'', cr_SourceIdentity = None\<rparr>"

definition example_output :: "CredentialResponse option list \<Rightarrow> CreateSessionOutput" where
  "example_output cs = \<lparr>CredentialSet = cs, EnrollmentArn = None, SubjectArn = None\<rparr>"

section \<open>Runs of the program\<close>

text \<open>
  What one call of \<^verbatim>\<open>CreateSession\<close> leaves behind: one recorded send, of a request with
  the given parameters and the region of the given client.
\<close>

lemma CreateSession_result:
  "CreateSession env c (Some i) cs = ((out, err), cs') \<Longrightarrow>
   \<exists>req. cs' = cs @ [Call_Send req] \<and> Send env req = (out, err) \<and> req_Params req = i
       \<and> cfg_Region (ra_Config (req_Client req)) = cfg_Region (ra_Config c)"
  by (auto simp: CreateSession_def CreateSessionRequest_def)

lemma GenerateCredentials_trust_anchor_malformed:
  "arn_Parse env (TrustAnchorArnStr opts) = (ta, Some e) \<Longrightarrow>
   GenerateCredentials env opts = (Returned CredentialProcessOutput_zero (Some e), opts, [])"
  by (simp add: GenerateCredentials_def)

lemma GenerateCredentials_profile_malformed:
  "arn_Parse env (TrustAnchorArnStr opts) = (ta, None) \<Longrightarrow>
   arn_Parse env (ProfileArnStr opts) = (pa, Some e) \<Longrightarrow>
   GenerateCredentials env opts = (Returned CredentialProcessOutput_zero (Some e), opts, [])"
  by (simp add: GenerateCredentials_def)

lemma GenerateCredentials_regions_differ:
  "arn_Parse env (TrustAnchorArnStr opts) = (ta, None) \<Longrightarrow>
   arn_Parse env (ProfileArnStr opts) = (pa, None) \<Longrightarrow>
   arn_Region ta \<noteq> arn_Region pa \<Longrightarrow>
   GenerateCredentials env opts = (Returned CredentialProcessOutput_zero None, opts, [])"
  by (simp add: GenerateCredentials_def)

lemma GenerateCredentials_exchange:
  assumes p1: "arn_Parse env (TrustAnchorArnStr opts) = (ta, None)"
      and p2: "arn_Parse env (ProfileArnStr opts) = (pa, None)"
      and rg: "arn_Region ta = arn_Region pa"
      and p3: "ReadPrivateKeyData env (PrivateKeyId opts) = (pk, None)"
      and p4: "ReadCertificateData env (CertificateId opts) = (cd, None)"
      and p5: "base64_DecodeString env (cd_CertificateData cd) = (der, None)"
      and p6: "x509_ParseCertificate env der = (cert, None)"
      and p7: "CertificateBundleId opts = [] \<or>
                 ReadCertificateBundleData env (CertificateBundleId opts) = (ptrs, None)
                 \<and> appendCertificates [] ptrs = Some chain"
      and p8: "session_NewSession env = (ses, None)"
      and run: "GenerateCredentials env opts = (r, opts', calls)"
  shows "opts' = (if Region opts = [] then opts\<lparr>Region := arn_Region ta\<rparr> else opts)
       \<and> (\<exists>req. last calls = Call_Send req
             \<and> (\<forall>q. Call_Send q \<in> set calls \<longrightarrow> q = req)
             \<and> req_Params req =
                 \<lparr>csi_Cert = Some (cd_CertificateData cd),
                  csi_DurationSeconds = Some 3600,
                  csi_InstanceProperties = None,
                  csi_ProfileArn = Some (ProfileArnStr opts),
                  csi_RoleArn = Some (RoleArn opts),
                  csi_SessionName = None,
                  csi_TrustAnchorArn = Some (TrustAnchorArnStr opts)\<rparr>
             \<and> cfg_Region (ra_Config (req_Client req)) = Some (Region opts')
             \<and> r = response_outcome (Send env req))"
  using run p7
  apply (cases "Region opts = []"; cases "CertificateBundleId opts = []";
         simp add: GenerateCredentials_def p1 p2 rg p3 p4 p5 p6 p8 Let_def split del: if_split;
         simp split: prod.split_asm split del: if_split)
  subgoal
    apply (drule CreateSession_result)
    apply (elim exE conjE)
    apply (simp add: NewClient_def WithEndpoint_def WithLogLevel_def WithHTTPClient_def
                     WithRegion_def NewConfig_def if_distrib[of cfg_Region]
                cong: if_cong split del: if_split)
    apply (auto simp: response_outcome_def split: if_split_asm option.split_asm)
    done
  subgoal
    apply (drule CreateSession_result)
    apply (elim exE conjE)
    apply (simp add: NewClient_def WithEndpoint_def WithLogLevel_def WithHTTPClient_def
                     WithRegion_def NewConfig_def if_distrib[of cfg_Region]
                cong: if_cong split del: if_split)
    apply (auto simp: response_outcome_def split: if_split_asm option.split_asm)
    done
  subgoal
    apply (drule CreateSession_result)
    apply (elim exE conjE)
    apply (simp add: NewClient_def WithEndpoint_def WithLogLevel_def WithHTTPClient_def
                     WithRegion_def NewConfig_def if_distrib[of cfg_Region]
                cong: if_cong split del: if_split)
    apply (auto simp: response_outcome_def split: if_split_asm option.split_asm)
    done
  subgoal
    apply (drule CreateSession_result)
    apply (elim exE conjE)
    apply (simp add: NewClient_def WithEndpoint_def WithLogLevel_def WithHTTPClient_def
                     WithRegion_def NewConfig_def if_distrib[of cfg_Region]
                cong: if_cong split del: if_split)
    apply (auto simp: response_outcome_def split: if_split_asm option.split_asm)
    done
  done

lemma GenerateCredentials_validated:
  assumes p1: "arn_Parse env (TrustAnchorArnStr opts) = (ta, None)"
      and p2: "arn_Parse env (ProfileArnStr opts) = (pa, None)"
      and rg: "arn_Region ta = arn_Region pa"
      and run: "GenerateCredentials env opts = (r, opts', calls)"
  shows "opts' = (if Region opts = [] then opts\<lparr>Region := arn_Region ta\<rparr> else opts)
       \<and> ((r = Panic \<or> (\<exists>e. r = Returned CredentialProcessOutput_zero (Some e)))
             \<and> (\<forall>q. Call_Send q \<notin> set calls)
          \<or> (\<exists>req. last calls = Call_Send req
             \<and> (\<forall>q. Call_Send q \<in> set calls \<longrightarrow> q = req)
             \<and> req_Params req =
                 \<lparr>csi_Cert = Some (cd_CertificateData
                                     (fst (ReadCertificateData env (CertificateId opts)))),
                  csi_DurationSeconds = Some 3600,
                  csi_InstanceProperties = None,
                  csi_ProfileArn = Some (ProfileArnStr opts),
                  csi_RoleArn = Some (RoleArn opts),
                  csi_SessionName = None,
                  csi_TrustAnchorArn = Some (TrustAnchorArnStr opts)\<rparr>
             \<and> cfg_Region (ra_Config (req_Client req)) = Some (Region opts')
             \<and> r = response_outcome (Send env req)))"
proof -
  obtain pk e3 where p3: "ReadPrivateKeyData env (PrivateKeyId opts) = (pk, e3)" by force
  obtain cd e4 where p4: "ReadCertificateData env (CertificateId opts) = (cd, e4)" by force
  obtain der e5 where p5: "base64_DecodeString env (cd_CertificateData cd) = (der, e5)" by force
  obtain cert e6 where p6: "x509_ParseCertificate env der = (cert, e6)" by force
  obtain ptrs e7 where
    p7: "ReadCertificateBundleData env (CertificateBundleId opts) = (ptrs, e7)" by force
  obtain ses e8 where p8: "session_NewSession env = (ses, e8)" by force
  note gc = GenerateCredentials_def p1 p2 rg Let_def
  consider
      (key) "e3 \<noteq> None"
    | (certificate) "e3 = None" "e4 \<noteq> None"
    | (base64) "e3 = None" "e4 = None" "e5 \<noteq> None"
    | (x509) "e3 = None" "e4 = None" "e5 = None" "e6 \<noteq> None"
    | (chain_error) "e3 = None" "e4 = None" "e5 = None" "e6 = None"
        "CertificateBundleId opts \<noteq> []" "e7 \<noteq> None"
    | (nil_certificate) "e3 = None" "e4 = None" "e5 = None" "e6 = None"
        "CertificateBundleId opts \<noteq> []" "e7 = None" "appendCertificates [] ptrs = None"
    | (no_session) "e3 = None" "e4 = None" "e5 = None" "e6 = None"
        "CertificateBundleId opts = [] \<or> e7 = None \<and> appendCertificates [] ptrs \<noteq> None"
        "e8 \<noteq> None"
    | (exchange) "e3 = None" "e4 = None" "e5 = None" "e6 = None"
        "CertificateBundleId opts = [] \<or> e7 = None \<and> appendCertificates [] ptrs \<noteq> None"
        "e8 = None"
    by argo
  then show ?thesis
  proof cases
    case key
    with run show ?thesis
      by (cases "Region opts = []") (auto simp add: gc p3 split del: if_split)
  next
    case certificate
    with run show ?thesis
      by (cases "Region opts = []") (auto simp add: gc p3 p4 split del: if_split)
  next
    case base64
    with run show ?thesis
      by (cases "Region opts = []") (auto simp add: gc p3 p4 p5 split del: if_split)
  next
    case x509
    with run show ?thesis
      by (cases "Region opts = []") (auto simp add: gc p3 p4 p5 p6 split del: if_split)
  next
    case chain_error
    with run show ?thesis
      by (cases "Region opts = []") (auto simp add: gc p3 p4 p5 p6 p7 split del: if_split)
  next
    case nil_certificate
    with run show ?thesis
      by (cases "Region opts = []") (auto simp add: gc p3 p4 p5 p6 p7 split del: if_split)
  next
    case no_session
    with run show ?thesis
      by (cases "Region opts = []"; cases "CertificateBundleId opts = []")
         (auto simp add: gc p3 p4 p5 p6 p7 p8 split del: if_split)
  next
    case exchange
    obtain chain where
      "CertificateBundleId opts = [] \<or> e7 = None \<and> appendCertificates [] ptrs = Some chain"
      using exchange(5) by auto
    with p7
    have b: "CertificateBundleId opts = [] \<or>
             ReadCertificateBundleData env (CertificateBundleId opts) = (ptrs, None)
             \<and> appendCertificates [] ptrs = Some chain"
      by auto
    have cd: "fst (ReadCertificateData env (CertificateId opts)) = cd"
      by (simp add: p4)
    show ?thesis
      using GenerateCredentials_exchange [OF p1 p2 rg
          p3 [unfolded exchange(1)] p4 [unfolded exchange(2)] p5 [unfolded exchange(3)]
          p6 [unfolded exchange(4)] b p8 [unfolded exchange(6)] run]
      unfolding cd by blast
  qed
qed


lemma GenerateCredentials_sent:
  assumes run: "GenerateCredentials env opts = (r, opts', calls)"
      and sent: "Call_Send req \<in> set calls"
  shows "snd (arn_Parse env (TrustAnchorArnStr opts)) = None
       \<and> snd (arn_Parse env (ProfileArnStr opts)) = None
       \<and> arn_Region (fst (arn_Parse env (TrustAnchorArnStr opts)))
           = arn_Region (fst (arn_Parse env (ProfileArnStr opts)))
       \<and> req_Params req =
           \<lparr>csi_Cert = Some (cd_CertificateData
                               (fst (ReadCertificateData env (CertificateId opts)))),
            csi_DurationSeconds = Some 3600,
            csi_InstanceProperties = None,
            csi_ProfileArn = Some (ProfileArnStr opts),
            csi_RoleArn = Some (RoleArn opts),
            csi_SessionName = None,
            csi_TrustAnchorArn = Some (TrustAnchorArnStr opts)\<rparr>
       \<and> cfg_Region (ra_Config (req_Client req)) = Some (Region opts')
       \<and> r = response_outcome (Send env req)"
proof -
  obtain ta e1 where p1: "arn_Parse env (TrustAnchorArnStr opts) = (ta, e1)" by force
  obtain pa e2 where p2: "arn_Parse env (ProfileArnStr opts) = (pa, e2)" by force
  have calls: "calls \<noteq> []"
    using sent by auto
  have e1: "e1 = None"
    using GenerateCredentials_trust_anchor_malformed [of env opts ta] p1 run calls
    by (cases e1) auto
  have e2: "e2 = None"
    using GenerateCredentials_profile_malformed [of env opts ta pa] p1 p2 e1 run calls
    by (cases e2) auto
  have rg: "arn_Region ta = arn_Region pa"
    using GenerateCredentials_regions_differ [of env opts ta pa] p1 p2 e1 e2 run calls
    by auto
  show ?thesis
    using GenerateCredentials_validated [OF p1 [unfolded e1] p2 [unfolded e2] rg run] sent
    by (auto simp add: p1 p2 e1 e2 rg)
qed

lemma response_outcome_error_zero:
  "response_outcome sent = Returned out (Some e) \<Longrightarrow> out = CredentialProcessOutput_zero"
  by (cases sent) (auto simp: response_outcome_def split: if_split_asm option.split_asm)

lemma GenerateCredentials_SessionDuration_unread:
  "GenerateCredentials env (opts\<lparr>SessionDuration := d\<rparr>) =
     (case GenerateCredentials env opts of
        (r, opts', calls) \<Rightarrow> (r, opts'\<lparr>SessionDuration := d\<rparr>, calls))"
proof -
  obtain ta e1 where p1: "arn_Parse env (TrustAnchorArnStr opts) = (ta, e1)" by force
  obtain pa e2 where p2: "arn_Parse env (ProfileArnStr opts) = (pa, e2)" by force
  obtain pk e3 where p3: "ReadPrivateKeyData env (PrivateKeyId opts) = (pk, e3)" by force
  obtain cd e4 where p4: "ReadCertificateData env (CertificateId opts) = (cd, e4)" by force
  obtain der e5 where p5: "base64_DecodeString env (cd_CertificateData cd) = (der, e5)" by force
  obtain cert e6 where p6: "x509_ParseCertificate env der = (cert, e6)" by force
  obtain ptrs e7 where
    p7: "ReadCertificateBundleData env (CertificateBundleId opts) = (ptrs, e7)" by force
  obtain ses e8 where p8: "session_NewSession env = (ses, e8)" by force
  note gc = GenerateCredentials_def p1 p2 Let_def
  consider
      (trust_anchor) "e1 \<noteq> None"
    | (profile) "e1 = None" "e2 \<noteq> None"
    | (regions) "e1 = None" "e2 = None" "arn_Region ta \<noteq> arn_Region pa"
    | (key) "e1 = None" "e2 = None" "arn_Region ta = arn_Region pa" "e3 \<noteq> None"
    | (certificate) "e1 = None" "e2 = None" "arn_Region ta = arn_Region pa"
        "e3 = None" "e4 \<noteq> None"
    | (base64) "e1 = None" "e2 = None" "arn_Region ta = arn_Region pa"
        "e3 = None" "e4 = None" "e5 \<noteq> None"
    | (x509) "e1 = None" "e2 = None" "arn_Region ta = arn_Region pa"
        "e3 = None" "e4 = None" "e5 = None" "e6 \<noteq> None"
    | (chain_error) "e1 = None" "e2 = None" "arn_Region ta = arn_Region pa"
        "e3 = None" "e4 = None" "e5 = None" "e6 = None"
        "CertificateBundleId opts \<noteq> []" "e7 \<noteq> None"
    | (nil_certificate) "e1 = None" "e2 = None" "arn_Region ta = arn_Region pa"
        "e3 = None" "e4 = None" "e5 = None" "e6 = None"
        "CertificateBundleId opts \<noteq> []" "e7 = None" "appendCertificates [] ptrs = None"
    | (no_session) "e1 = None" "e2 = None" "arn_Region ta = arn_Region pa"
        "e3 = None" "e4 = None" "e5 = None" "e6 = None"
        "CertificateBundleId opts = [] \<or> e7 = None \<and> appendCertificates [] ptrs \<noteq> None"
        "e8 \<noteq> None"
    | (exchange) "e1 = None" "e2 = None" "arn_Region ta = arn_Region pa"
        "e3 = None" "e4 = None" "e5 = None" "e6 = None"
        "CertificateBundleId opts = [] \<or> e7 = None \<and> appendCertificates [] ptrs \<noteq> None"
        "e8 = None"
    by argo
  then show ?thesis
  proof cases
    case trust_anchor
    then show ?thesis by (auto simp add: gc)
  next
    case profile
    then show ?thesis by (auto simp add: gc)
  next
    case regions
    then show ?thesis by (auto simp add: gc)
  next
    case key
    then show ?thesis
      by (cases "Region opts = []") (auto simp add: gc p3 split del: if_split)
  next
    case certificate
    then show ?thesis
      by (cases "Region opts = []") (auto simp add: gc p3 p4 split del: if_split)
  next
    case base64
    then show ?thesis
      by (cases "Region opts = []") (auto simp add: gc p3 p4 p5 split del: if_split)
  next
    case x509
    then show ?thesis
      by (cases "Region opts = []") (auto simp add: gc p3 p4 p5 p6 split del: if_split)
  next
    case chain_error
    then show ?thesis
      by (cases "Region opts = []") (auto simp add: gc p3 p4 p5 p6 p7 split del: if_split)
  next
    case nil_certificate
    then show ?thesis
      by (cases "Region opts = []") (auto simp add: gc p3 p4 p5 p6 p7 split del: if_split)
  next
    case no_session
    then show ?thesis
      by (cases "Region opts = []"; cases "CertificateBundleId opts = []")
         (auto simp add: gc p3 p4 p5 p6 p7 p8 split del: if_split)
  next
    case exchange
    show ?thesis
    proof (cases "CertificateBundleId opts = []")
      case True
      with exchange show ?thesis
        apply (cases "Region opts = []";
               simp add: gc p3 p4 p5 p6 p7 p8 split del: if_split cong: if_cong)
        apply (simp_all split: prod.split split del: if_split)
        subgoal
          apply (intro allI impI)
          apply (thin_tac "CreateSession _ _ _ _ = _")
          apply (auto split: if_split_asm option.split_asm)
          done
        subgoal
          apply (intro allI impI)
          apply (thin_tac "CreateSession _ _ _ _ = _")
          apply (auto split: if_split_asm option.split_asm)
          done
        done
    next
      case False
      with exchange obtain chain where
        "e7 = None" "appendCertificates [] ptrs = Some chain"
        by auto
      with False exchange show ?thesis
        apply (cases "Region opts = []";
               simp add: gc p3 p4 p5 p6 p7 p8 split del: if_split cong: if_cong)
        apply (simp_all split: prod.split split del: if_split)
        subgoal
          apply (intro allI impI)
          apply (thin_tac "CreateSession _ _ _ _ = _")
          apply (auto split: if_split_asm option.split_asm)
          done
        subgoal
          apply (intro allI impI)
          apply (thin_tac "CreateSession _ _ _ _ = _")
          apply (auto split: if_split_asm option.split_asm)
          done
        done
    qed
  qed
qed

lemma example_run_sends:
  "\<exists>req. Call_Send req
          \<in> set (snd (snd (GenerateCredentials (env_answering response)
                              (example_opts example_trust_anchor example_profile region))))"
  by (cases "region = []")
     (simp_all add: GenerateCredentials_def env_answering_def example_opts_def
        example_trust_anchor_def example_profile_def Parse_def HasPrefix_def
        CreateSession_def CreateSessionRequest_def Let_def
        split: prod.split option.split)

section \<open>ARN validation\<close>

text \<open>
  C1. The claim: when both ARN strings parse and their regions differ,
  \<^verbatim>\<open>GenerateCredentials\<close> fails with a non-nil error before any collaborator is called.
  The code returns the variable \<open>err\<close>, which is nil after two successful parses: on
  a trust anchor in us-east-1 and a profile in us-west-2 the run returns the zero output
  with a nil error. No collaborator has been called, as the claim says.
\<close>

theorem GenerateCredentials_region_mismatch_returns_nil:
  "GenerateCredentials (env_answering (example_output [], None))
     (example_opts example_trust_anchor example_profile_west [])
   = (Returned CredentialProcessOutput_zero None,
      example_opts example_trust_anchor example_profile_west [], [])"
  by (simp add: GenerateCredentials_def env_answering_def example_opts_def
        example_trust_anchor_def example_profile_west_def Parse_def HasPrefix_def)

text \<open>
  C6. When the trust-anchor ARN or the profile ARN does not parse,
  \<^verbatim>\<open>GenerateCredentials\<close> returns the zero output with the error of the parse that failed
  (the trust anchor's, else the profile's), leaves the options as they were and has called
  no collaborator.
\<close>

theorem GenerateCredentials_malformed_arn:
  assumes "snd (arn_Parse env (TrustAnchorArnStr opts)) \<noteq> None
           \<or> snd (arn_Parse env (ProfileArnStr opts)) \<noteq> None"
  shows "\<exists>e. GenerateCredentials env opts
               = (Returned CredentialProcessOutput_zero (Some e), opts, [])
           \<and> (snd (arn_Parse env (TrustAnchorArnStr opts)) = Some e
              \<or> snd (arn_Parse env (TrustAnchorArnStr opts)) = None
                 \<and> snd (arn_Parse env (ProfileArnStr opts)) = Some e)"
proof -
  obtain ta e1 where p1: "arn_Parse env (TrustAnchorArnStr opts) = (ta, e1)" by force
  obtain pa e2 where p2: "arn_Parse env (ProfileArnStr opts) = (pa, e2)" by force
  show ?thesis
  proof (cases e1)
    case (Some e)
    then show ?thesis
      using GenerateCredentials_trust_anchor_malformed [of env opts ta e] p1 by simp
  next
    case None
    with assms p1 p2 obtain e where "e2 = Some e" by auto
    then show ?thesis
      using GenerateCredentials_profile_malformed [of env opts ta pa e] p1 p2 None by simp
  qed
qed

theorem GenerateCredentials_malformed_arn_witness:
  "GenerateCredentials (env_answering (example_output [], None))
     (example_opts ''not-an-arn'' example_profile [])
   = (Returned CredentialProcessOutput_zero (Some (ErrorString ''arn: invalid prefix'')),
      example_opts ''not-an-arn'' example_profile [], [])"
  using GenerateCredentials_malformed_arn
          [of "env_answering (example_output [], None)"
              "example_opts ''not-an-arn'' example_profile []"]
  by (simp add: env_answering_def example_opts_def Parse_def HasPrefix_def)

text \<open>
  C7. When both ARNs parse with equal regions, the options after the run are the options
  before it, except that an empty \<^verbatim>\<open>Region\<close> has become the region of the trust-anchor ARN;
  a region the caller supplied is unchanged. Every request the run sends goes through a
  client configured with that region.
\<close>

theorem GenerateCredentials_region_of_trust_anchor:
  assumes "arn_Parse env (TrustAnchorArnStr opts) = (trustAnchorArn, None)"
      and "arn_Parse env (ProfileArnStr opts) = (profileArn, None)"
      and "arn_Region trustAnchorArn = arn_Region profileArn"
  shows "fst (snd (GenerateCredentials env opts)) =
           (if Region opts = [] then opts\<lparr>Region := arn_Region trustAnchorArn\<rparr> else opts)
       \<and> (\<forall>req. Call_Send req \<in> set (snd (snd (GenerateCredentials env opts))) \<longrightarrow>
             cfg_Region (ra_Config (req_Client req)) =
               Some (if Region opts = [] then arn_Region trustAnchorArn else Region opts))"
proof -
  obtain r opts' calls where run: "GenerateCredentials env opts = (r, opts', calls)"
    by (cases "GenerateCredentials env opts") auto
  from GenerateCredentials_validated [OF assms run]
  show ?thesis
    by (auto simp add: run)
qed

theorem GenerateCredentials_region_of_trust_anchor_witness:
  "Region (fst (snd (GenerateCredentials (env_answering (example_output [], None))
                       (example_opts example_trust_anchor example_profile []))))
     = ''us-east-1''
   \<and> Region (fst (snd (GenerateCredentials (env_answering (example_output [], None))
                       (example_opts example_trust_anchor example_profile ''eu-west-1''))))
     = ''eu-west-1''"
  using GenerateCredentials_region_of_trust_anchor
          [of "env_answering (example_output [], None)"
              "example_opts example_trust_anchor example_profile []"
              "\<lparr>arn_Partition = ''aws'', arn_Service = ''rolesanywhere'',
                arn_Region = ''us-east-1'', arn_AccountID = ''123456789012'',
                arn_Resource = ''trust-anchor/ta''\<rparr>"
              "\<lparr>arn_Partition = ''aws'', arn_Service = ''rolesanywhere'',
                arn_Region = ''us-east-1'', arn_AccountID = ''123456789012'',
                arn_Resource = ''profile/p''\<rparr>"]
        GenerateCredentials_region_of_trust_anchor
          [of "env_answering (example_output [], None)"
              "example_opts example_trust_anchor example_profile ''eu-west-1''"
              "\<lparr>arn_Partition = ''aws'', arn_Service = ''rolesanywhere'',
                arn_Region = ''us-east-1'', arn_AccountID = ''123456789012'',
                arn_Resource = ''trust-anchor/ta''\<rparr>"
              "\<lparr>arn_Partition = ''aws'', arn_Service = ''rolesanywhere'',
                arn_Region = ''us-east-1'', arn_AccountID = ''123456789012'',
                arn_Resource = ''profile/p''\<rparr>"]
  by (simp add: env_answering_def example_opts_def example_trust_anchor_def
        example_profile_def Parse_def HasPrefix_def)

section \<open>The request sent\<close>

text \<open>
  C9. Every request that a run of \<^verbatim>\<open>GenerateCredentials\<close> sends carries
  \<^verbatim>\<open>DurationSeconds\<close> = 3600, and \<^verbatim>\<open>opts.SessionDuration\<close> is never read: changing it changes
  nothing of the run but that field of the options handed back.
\<close>

theorem GenerateCredentials_duration_fixed:
  "(\<forall>req. Call_Send req \<in> set (snd (snd (GenerateCredentials env opts))) \<longrightarrow>
       csi_DurationSeconds (req_Params req) = Some 3600)
   \<and> GenerateCredentials env (opts\<lparr>SessionDuration := d\<rparr>) =
       (case GenerateCredentials env opts of
          (r, opts', calls) \<Rightarrow> (r, opts'\<lparr>SessionDuration := d\<rparr>, calls))"
proof -
  obtain r opts' calls where run: "GenerateCredentials env opts = (r, opts', calls)"
    by (cases "GenerateCredentials env opts") auto
  have "csi_DurationSeconds (req_Params req) = Some 3600"
    if "Call_Send req \<in> set calls" for req
    using GenerateCredentials_sent [OF run that] by simp
  then show ?thesis
    using GenerateCredentials_SessionDuration_unread [where env = env and opts = opts and d = d]
    by (simp add: run)
qed

theorem GenerateCredentials_duration_fixed_witness:
  "\<exists>req. Call_Send req
          \<in> set (snd (snd (GenerateCredentials (env_answering (example_output [], None))
                              (example_opts example_trust_anchor example_profile []))))
        \<and> csi_DurationSeconds (req_Params req) = Some 3600"
  using GenerateCredentials_duration_fixed
          [where env = "env_answering (example_output [], None)"
             and opts = "example_opts example_trust_anchor example_profile []"
             and d = 0]
        example_run_sends [of "(example_output [], None)" "[]"]
  by blast

text \<open>
  C10. Every request that a run of \<^verbatim>\<open>GenerateCredentials\<close> sends has \<^verbatim>\<open>SessionName\<close> nil and
  \<^verbatim>\<open>InstanceProperties\<close> nil.
\<close>

theorem GenerateCredentials_no_session_name:
  assumes "Call_Send req \<in> set (snd (snd (GenerateCredentials env opts)))"
  shows "csi_SessionName (req_Params req) = None
       \<and> csi_InstanceProperties (req_Params req) = None"
proof -
  obtain r opts' calls where run: "GenerateCredentials env opts = (r, opts', calls)"
    by (cases "GenerateCredentials env opts") auto
  from GenerateCredentials_sent [OF run, of req] assms
  show ?thesis
    by (simp add: run)
qed

theorem GenerateCredentials_no_session_name_witness:
  "\<exists>req. Call_Send req
          \<in> set (snd (snd (GenerateCredentials (env_answering (example_output [], None))
                              (example_opts example_trust_anchor example_profile []))))
        \<and> csi_SessionName (req_Params req) = None
        \<and> csi_InstanceProperties (req_Params req) = None"
proof -
  obtain req where
    sent: "Call_Send req
             \<in> set (snd (snd (GenerateCredentials (env_answering (example_output [], None))
                                 (example_opts example_trust_anchor example_profile []))))"
    using example_run_sends [of "(example_output [], None)" "[]"] by blast
  from GenerateCredentials_no_session_name [OF sent] sent
  show ?thesis by blast
qed

section \<open>The response\<close>

text \<open>
  C3. When the send of a run succeeds with an empty \<^verbatim>\<open>CredentialSet\<close>,
  \<^verbatim>\<open>GenerateCredentials\<close> returns the zero output and the error "unable to obtain temporary
  security credentials from CreateSession".
\<close>

theorem GenerateCredentials_empty_credential_set:
  assumes "Call_Send req \<in> set (snd (snd (GenerateCredentials env opts)))"
      and "Send env req = (output, None)"
      and "CredentialSet output = []"
  shows "fst (GenerateCredentials env opts) =
           Returned CredentialProcessOutput_zero
             (Some (ErrorString
                ''unable to obtain temporary security credentials from CreateSession''))"
proof -
  obtain r opts' calls where run: "GenerateCredentials env opts = (r, opts', calls)"
    by (cases "GenerateCredentials env opts") auto
  from GenerateCredentials_sent [OF run, of req] assms
  show ?thesis
    by (simp add: run response_outcome_def)
qed

theorem GenerateCredentials_empty_credential_set_witness:
  "fst (GenerateCredentials (env_answering (example_output [], None))
          (example_opts example_trust_anchor example_profile []))
   = Returned CredentialProcessOutput_zero
       (Some (ErrorString
          ''unable to obtain temporary security credentials from CreateSession''))"
proof -
  obtain req where
    sent: "Call_Send req
             \<in> set (snd (snd (GenerateCredentials (env_answering (example_output [], None))
                                 (example_opts example_trust_anchor example_profile []))))"
    using example_run_sends [of "(example_output [], None)" "[]"] by blast
  have answer: "Send (env_answering (example_output [], None)) req = (example_output [], None)"
    by (simp add: env_answering_def)
  have empty: "CredentialSet (example_output []) = []"
    by (simp add: example_output_def)
  from GenerateCredentials_empty_credential_set [OF sent answer empty]
  show ?thesis .
qed

text \<open>
  C4. The claim: for every successful response with a non-empty \<^verbatim>\<open>CredentialSet\<close> the run
  returns the output with \<^verbatim>\<open>Version\<close> 1 and the four fields of the first entry's credentials.
  The code dereferences \<^verbatim>\<open>CredentialSet[0]\<close>, its \<^verbatim>\<open>Credentials\<close> and the four fields without a
  nil check. On a successful response whose only entry carries no credentials the run
  neither returns that output nor an error: it panics, where the empty set, two lines
  above, is turned into an error.
\<close>

theorem GenerateCredentials_nil_credentials_panics:
  "fst (GenerateCredentials
          (env_answering (example_output [Some (example_response None)], None))
          (example_opts example_trust_anchor example_profile []))
   = Panic"
  by (simp add: GenerateCredentials_def env_answering_def example_opts_def
        example_trust_anchor_def example_profile_def example_output_def
        example_response_def Parse_def HasPrefix_def CreateSession_def
        CreateSessionRequest_def Let_def)

text \<open>
  On the responses that do carry the first entry, its \<^verbatim>\<open>Credentials\<close> and their four fields,
  the code does what the claim says: it returns, with a nil error, the output with
  \<^verbatim>\<open>Version\<close> 1 and those four fields, and nothing else of the response (the other fields of
  the entry, the later entries, the two ARNs) is in the result.
\<close>

lemma GenerateCredentials_projects_first_credentials:
  assumes "Call_Send req \<in> set (snd (snd (GenerateCredentials env opts)))"
      and "Send env req = (output, None)"
      and "CredentialSet output = Some first # rest"
      and "cr_Credentials first = Some credentials"
      and "AccessKeyId credentials = Some accessKeyId"
      and "SecretAccessKey credentials = Some secretAccessKey"
      and "SessionToken credentials = Some sessionToken"
      and "Expiration credentials = Some expiration"
  shows "fst (GenerateCredentials env opts) =
           Returned \<lparr>out_Version = 1,
                     out_AccessKeyId = accessKeyId,
                     out_SecretAccessKey = secretAccessKey,
                     out_SessionToken = sessionToken,
                     out_Expiration = expiration\<rparr> None"
proof -
  obtain r opts' calls where run: "GenerateCredentials env opts = (r, opts', calls)"
    by (cases "GenerateCredentials env opts") auto
  from GenerateCredentials_sent [OF run, of req] assms
  show ?thesis
    by (simp add: run response_outcome_def)
qed

lemma GenerateCredentials_projects_first_credentials_example:
  "fst (GenerateCredentials
          (env_answering
             (example_output [Some (example_response (Some example_credentials)), None],
              None))
          (example_opts example_trust_anchor example_profile []))
   = Returned \<lparr>out_Version = 1,
               out_AccessKeyId = ''AKIDEXAMPLE'',
               out_SecretAccessKey = ''secret'',
               out_SessionToken = ''tok'',
               out_Expiration = ''2024-01-01T00:00:00Z''\<rparr> None"
proof -
  let ?response =
    "(example_output [Some (example_response (Some example_credentials)), None], None)"
  obtain req where
    sent: "Call_Send req
             \<in> set (snd (snd (GenerateCredentials (env_answering ?response)
                                 (example_opts example_trust_anchor example_profile []))))"
    using example_run_sends [of ?response "[]"] by blast
  have answer: "Send (env_answering ?response) req = ?response"
    by (simp add: env_answering_def)
  from GenerateCredentials_projects_first_credentials
         [OF sent answer, of "example_response (Some example_credentials)" "[None]"
            example_credentials "''AKIDEXAMPLE''" "''secret''" "''tok''"
            "''2024-01-01T00:00:00Z''"]
  show ?thesis
    by (simp add: example_output_def example_response_def example_credentials_def)
qed

text \<open>
  C8. Whenever \<^verbatim>\<open>GenerateCredentials\<close> returns a non-nil error, the output returned with it
  is the zero value.
\<close>

theorem GenerateCredentials_error_has_zero_output:
  assumes "fst (GenerateCredentials env opts) = Returned out (Some e)"
  shows "out = CredentialProcessOutput_zero"
proof -
  obtain r opts' calls where run: "GenerateCredentials env opts = (r, opts', calls)"
    by (cases "GenerateCredentials env opts") auto
  obtain ta e1 where p1: "arn_Parse env (TrustAnchorArnStr opts) = (ta, e1)" by force
  obtain pa e2 where p2: "arn_Parse env (ProfileArnStr opts) = (pa, e2)" by force
  consider (trust_anchor) "e1 \<noteq> None" | (profile) "e1 = None" "e2 \<noteq> None"
    | (regions) "e1 = None" "e2 = None" "arn_Region ta \<noteq> arn_Region pa"
    | (validated) "e1 = None" "e2 = None" "arn_Region ta = arn_Region pa"
    by argo
  then show ?thesis
  proof cases
    case trust_anchor
    then show ?thesis
      using GenerateCredentials_trust_anchor_malformed [of env opts ta] p1 assms by auto
  next
    case profile
    then show ?thesis
      using GenerateCredentials_profile_malformed [of env opts ta pa] p1 p2 assms by auto
  next
    case regions
    then show ?thesis
      using GenerateCredentials_regions_differ [of env opts ta pa] p1 p2 assms by auto
  next
    case validated
    from GenerateCredentials_validated
           [OF p1 [unfolded validated(1)] p2 [unfolded validated(2)] validated(3) run]
    show ?thesis
      using assms run by (auto dest: response_outcome_error_zero [OF sym])
  qed
qed

theorem GenerateCredentials_error_has_zero_output_witness:
  "fst (GenerateCredentials
          (env_answering
             (example_output [Some (example_response (Some example_credentials))],
              Some (ErrorString ''deadline exceeded'')))
          (example_opts example_trust_anchor example_profile []))
   = Returned CredentialProcessOutput_zero (Some (ErrorString ''deadline exceeded''))"
proof -
  let ?run =
    "GenerateCredentials
       (env_answering
          (example_output [Some (example_response (Some example_credentials))],
           Some (ErrorString ''deadline exceeded'')))
       (example_opts example_trust_anchor example_profile [])"
  have "\<exists>out. fst ?run = Returned out (Some (ErrorString ''deadline exceeded''))"
    by (simp add: GenerateCredentials_def env_answering_def example_opts_def
          example_trust_anchor_def example_profile_def Parse_def HasPrefix_def
          CreateSession_def CreateSessionRequest_def Let_def)
  then obtain out where
    returned: "fst ?run = Returned out (Some (ErrorString ''deadline exceeded''))"
    by blast
  from GenerateCredentials_error_has_zero_output [OF returned] returned
  show ?thesis by simp
qed

section \<open>Remote errors\<close>

text \<open>
  C5. The mapping \<^verbatim>\<open>exceptionFromCode\<close> has exactly the three codes
  AccessDeniedException, ResourceNotFoundException and ValidationException; the error it
  builds for a code reports that code, and its \<^verbatim>\<open>StatusCode()\<close> and \<^verbatim>\<open>RequestID()\<close> are those
  of the response metadata. The dispatcher gives, for a code of the mapping, that typed
  error with the message, and for any other code the generic error; in both cases the
  error carries the status and the request id of the response.
\<close>

theorem exceptionFromCode_dispatch:
  "map fst exceptionFromCode =
     [''AccessDeniedException'', ''ResourceNotFoundException'', ''ValidationException'']
   \<and> (\<forall>fn. map_of exceptionFromCode code = Some fn \<longrightarrow>
         Code (fn respMeta) = Some code
         \<and> StatusCode (fn respMeta) = Some (md_StatusCode respMeta)
         \<and> RequestID (fn respMeta) = Some (md_RequestID respMeta)
         \<and> UnmarshalError code msg respMeta = withMessage msg (fn respMeta))
   \<and> (code \<in> {''AccessDeniedException'', ''ResourceNotFoundException'',
                ''ValidationException''} \<longrightarrow>
         Code (UnmarshalError code msg respMeta) = Some code
         \<and> UnmarshalError code msg respMeta
             \<in> {AccessDeniedException respMeta (Some msg),
                ResourceNotFoundException respMeta (Some msg),
                ValidationException respMeta (Some msg)})
   \<and> (code \<notin> {''AccessDeniedException'', ''ResourceNotFoundException'',
                ''ValidationException''} \<longrightarrow>
         UnmarshalError code msg respMeta =
           RemoteError code msg (md_StatusCode respMeta) (md_RequestID respMeta))
   \<and> StatusCode (UnmarshalError code msg respMeta) = Some (md_StatusCode respMeta)
   \<and> RequestID (UnmarshalError code msg respMeta) = Some (md_RequestID respMeta)"
  by (auto simp add: exceptionFromCode_def UnmarshalError_def
        newErrorAccessDeniedException_def newErrorResourceNotFoundException_def
        newErrorValidationException_def)

theorem exceptionFromCode_dispatch_witness:
  "Code (UnmarshalError ''ValidationException'' ''bad duration''
           \<lparr>md_StatusCode = 400, md_RequestID = ''req-1''\<rparr>) = Some ''ValidationException''
   \<and> StatusCode (UnmarshalError ''ValidationException'' ''bad duration''
           \<lparr>md_StatusCode = 400, md_RequestID = ''req-1''\<rparr>) = Some 400
   \<and> UnmarshalError ''ThrottlingException'' ''slow down''
           \<lparr>md_StatusCode = 503, md_RequestID = ''req-2''\<rparr>
       = RemoteError ''ThrottlingException'' ''slow down'' 503 ''req-2''"
  using exceptionFromCode_dispatch
          [where code = "''ValidationException''"
             and respMeta = "\<lparr>md_StatusCode = 400, md_RequestID = ''req-1''\<rparr>"
             and msg = "''bad duration''"]
        exceptionFromCode_dispatch
          [where code = "''ThrottlingException''"
             and respMeta = "\<lparr>md_StatusCode = 503, md_RequestID = ''req-2''\<rparr>"
             and msg = "''slow down''"]
  by simp

section \<open>Validation of the session request\<close>

text \<open>
  C2. \<^verbatim>\<open>Validate\<close> returns nil exactly when the duration is absent or at least 900, the
  profile ARN and the role ARN are present, and the session name is absent or at least
  two long. A duration of 899 is always reported as below the minimum value 900, and
  with a duration of 900 the outcome is that of the remaining three checks.
\<close>

theorem Validate_nil_iff:
  "(Validate s = None \<longleftrightarrow>
      (case csi_DurationSeconds s of None \<Rightarrow> True | Some d \<Rightarrow> 900 \<le> sint d)
      \<and> csi_ProfileArn s \<noteq> None
      \<and> csi_RoleArn s \<noteq> None
      \<and> (case csi_SessionName s of None \<Rightarrow> True | Some n \<Rightarrow> 2 \<le> length n))
   \<and> (\<exists>ps. Validate (s\<lparr>csi_DurationSeconds := Some 899\<rparr>)
              = Some (ErrInvalidParams ''CreateSessionInput''
                        (ErrParamMinValue ''DurationSeconds'' 900 # ps)))
   \<and> (Validate (s\<lparr>csi_DurationSeconds := Some 900\<rparr>) = None \<longleftrightarrow>
        csi_ProfileArn s \<noteq> None \<and> csi_RoleArn s \<noteq> None
        \<and> (case csi_SessionName s of None \<Rightarrow> True | Some n \<Rightarrow> 2 \<le> length n))"
  by (auto simp: Validate_def Let_def split: option.splits)

theorem Validate_nil_iff_witness:
  "Validate \<lparr>csi_Cert = None, csi_DurationSeconds = Some 900, csi_InstanceProperties = None,
             csi_ProfileArn = Some ''p'', csi_RoleArn = Some ''r'', csi_SessionName = None,
             csi_TrustAnchorArn = None\<rparr> = None
   \<and> Validate \<lparr>csi_Cert = None, csi_DurationSeconds = Some 899,
               csi_InstanceProperties = None, csi_ProfileArn = Some ''p'',
               csi_RoleArn = Some ''r'', csi_SessionName = None,
               csi_TrustAnchorArn = None\<rparr> \<noteq> None"
  using Validate_nil_iff
          [of "\<lparr>csi_Cert = None, csi_DurationSeconds = None, csi_InstanceProperties = None,
                csi_ProfileArn = Some ''p'', csi_RoleArn = Some ''r'', csi_SessionName = None,
                csi_TrustAnchorArn = None\<rparr>"]
  by auto

end
